theory Spec2Isabelle
  imports Complex_Main
begin

section \<open>Python values the rhythm classifier works with\<close>

text \<open>
  Exceptions are values. Every constructor stands for an instance of a subclass of
  Python's \<open>Exception\<close>, the classes an \<open>except Exception\<close> clause catches; the string is
  what \<open>str(e)\<close> returns. \<open>PyException\<close> stands for any class without a clause of its
  own in the code (ValueError, TypeError, IndexError, an unpickling error, ...).
\<close>

datatype py_exception =
    FileNotFoundError string
  | NotFittedError string
  | KeyError string
  | PyException string

fun str :: "py_exception \<Rightarrow> string" where
  "str (FileNotFoundError msg) = msg"
| "str (NotFittedError msg) = msg"
| "str (KeyError msg) = msg"
| "str (PyException msg) = msg"

text \<open>
  The two persisted artifacts are objects of which the classifier calls one method each:
  \<open>SCALER.transform(X)\<close> and \<open>KMEANS_MODEL.predict(X)\<close>. An artifact is therefore the
  behaviour of that method on a matrix (a list of rows): it returns a value or raises.
\<close>

record scaler =
  transform :: "real list list \<Rightarrow> py_exception + real list list"

record kmeans =
  predict :: "real list list \<Rightarrow> py_exception + int list"

text \<open>The module globals of \<open>rhythm_mapping.py\<close>; \<open>None\<close> is Python's \<open>None\<close>.\<close>

record module_state =
  KMEANS_MODEL :: "kmeans option"
  SCALER :: "scaler option"

section \<open>rhythm\_mapping.py\<close>

subsection \<open>Loading the artifacts (lines 7-13)\<close>


subsection \<open>The cluster index to state name table (lines 18-25)\<close>

definition CLUSTER_TO_STATE :: "(int \<times> string) list" where
  "CLUSTER_TO_STATE =
     [(0, ''Burnout State''),
      (1, ''Flow State''),
      (2, ''Balanced State''),
      (3, ''Fatigue State''),
      (4, ''Digital Drift State'')]"

text \<open>\<open>d.get(k, default)\<close> on a dictionary given by its items.\<close>

definition dict_get :: "('k \<times> 'v) list \<Rightarrow> 'k \<Rightarrow> 'v \<Rightarrow> 'v" where
  "dict_get d k dflt = (case map_of d k of None \<Rightarrow> dflt | Some v \<Rightarrow> v)"

subsection \<open>classify\_rhythm\_state (lines 29-54)\<close>

text \<open>Line 40: \<open>np.array([[screen_time, sleep_hours, productivity_score]])\<close>.\<close>

definition user_input :: "real \<Rightarrow> real \<Rightarrow> real \<Rightarrow> real list list" where
  "user_input sleep_hours screen_time productivity_score =
     [[screen_time, sleep_hours, productivity_score]]"

text \<open>
  The body of the \<open>try\<close> block (lines 40-49). \<open>predict(...)[0]\<close> raises IndexError on an
  empty array of labels.
\<close>

definition try_block :: "kmeans \<Rightarrow> scaler \<Rightarrow> real \<Rightarrow> real \<Rightarrow> real \<Rightarrow> py_exception + string" where
  "try_block m s sleep_hours screen_time productivity_score =
     (case transform s (user_input sleep_hours screen_time productivity_score) of
        Inl e \<Rightarrow> Inl e
      | Inr scaled_input \<Rightarrow>
          (case predict m scaled_input of
             Inl e \<Rightarrow> Inl e
           | Inr labels \<Rightarrow>
               (case labels of
                  [] \<Rightarrow> Inl (PyException ''index 0 is out of bounds for axis 0 with size 0'')
                | cluster_index # rest \<Rightarrow>
                    Inr (dict_get CLUSTER_TO_STATE cluster_index ''Unknown State''))))"

text \<open>
  The function with its guard (lines 35-36) and its two handlers (lines 51-54). The
  state is a record scheme: whatever else the process holds is the extension, which the
  function has no way to read.
\<close>

definition classify_rhythm_state ::
  "'a module_state_scheme \<Rightarrow> real \<Rightarrow> real \<Rightarrow> real \<Rightarrow> py_exception + string" where
  "classify_rhythm_state st sleep_hours screen_time productivity_score =
     (case KMEANS_MODEL st of
        None \<Rightarrow> Inr ''Classification Error''
      | Some m \<Rightarrow>
          (case SCALER st of
             None \<Rightarrow> Inr ''Classification Error''
           | Some s \<Rightarrow>
               (case try_block m s sleep_hours screen_time productivity_score of
                  Inr state_name \<Rightarrow> Inr state_name
                | Inl (NotFittedError msg) \<Rightarrow> Inr ''Model Not Fitted Error''
                | Inl e \<Rightarrow> Inr (''Classification Error: '' @ str e))))"


section \<open>The artifacts of a training run\<close>

text \<open>
  Modelled from the spec: the scaler and the cluster model are objects of the
  scikit-learn library, whose code is not part of the repository. The specification
  describes the scaler artifact as a per-feature mean and standard deviation and its
  transform as "subtract per-feature mean, divide by per-feature standard deviation", the
  cluster model artifact as centroid vectors with a nearest-centroid assignment, and a
  model that is loaded but not fitted as a fault of its own. A row with another number
  of features than the artifact was fitted on is one of the "other failures". Among
  equally near centroids the lowest index is taken.
\<close>

definition standardize :: "real list \<Rightarrow> real list \<Rightarrow> real list \<Rightarrow> real list" where
  "standardize means scales row =
     map (\<lambda>j. (row ! j - means ! j) / scales ! j) [0..<length row]"

definition StandardScaler :: "real list \<Rightarrow> real list \<Rightarrow> scaler" where
  "StandardScaler means scales =
     \<lparr>transform = (\<lambda>X.
        if list_all (\<lambda>row. length row = length means) X
        then Inr (map (standardize means scales) X)
        else Inl (PyException ''X has a different number of features than StandardScaler was fitted with''))\<rparr>"

definition unfitted_StandardScaler :: scaler where
  "unfitted_StandardScaler =
     \<lparr>transform = (\<lambda>X. Inl (NotFittedError ''This StandardScaler instance is not fitted yet.''))\<rparr>"

definition sq_dist :: "real list \<Rightarrow> real list \<Rightarrow> real" where
  "sq_dist x c = sum_list (map (\<lambda>j. (x ! j - c ! j) ^ 2) [0..<length x])"

fun argmin :: "real list \<Rightarrow> nat" where
  "argmin [] = 0"
| "argmin [d] = 0"
| "argmin (d # e # ds) = (if d \<le> (e # ds) ! argmin (e # ds) then 0 else Suc (argmin (e # ds)))"

definition KMeans :: "real list list \<Rightarrow> kmeans" where
  "KMeans cluster_centers =
     \<lparr>predict = (\<lambda>X.
        if list_all (\<lambda>row. list_all (\<lambda>c. length c = length row) cluster_centers) X
        then Inr (map (\<lambda>row. int (argmin (map (sq_dist row) cluster_centers))) X)
        else Inl (PyException ''X has a different number of features than KMeans was fitted with''))\<rparr>"

definition unfitted_KMeans :: kmeans where
  "unfitted_KMeans =
     \<lparr>predict = (\<lambda>X. Inl (NotFittedError ''This KMeans instance is not fitted yet.''))\<rparr>"

text \<open>
  A crafted pair of artifacts: a scaler with means (5, 7, 50) and deviations (2, 1, 20)
  for screen time, sleep and productivity, and five distinct centroids in standardized
  space, index by index in the sense of the lookup table.
\<close>

definition crafted_scaler :: scaler where
  "crafted_scaler = StandardScaler [5, 7, 50] [2, 1, 20]"

definition crafted_centers :: "real list list" where
  "crafted_centers =
     [[3/2, -3/2, -3/2],
      [-3/2, 1, 3/2],
      [0, 0, 0],
      [0, -3/2, 0],
      [3/2, 0, 0]]"

definition crafted_state :: module_state where
  "crafted_state = \<lparr>KMEANS_MODEL = Some (KMeans crafted_centers), SCALER = Some crafted_scaler\<rparr>"

section \<open>app.py: what the dashboard does with the result\<close>

text \<open>
  The per-state display table (lines 33-40), a dictionary of dictionaries. A string is
  the list of its UTF-8 bytes, so the icons are written byte by byte as the file has them.
\<close>

definition RHYTHM_STATES :: "(string \<times> (string \<times> string) list) list" where
  "RHYTHM_STATES =
     [
      (''Flow State'',
        [(''productivity'', ''High''), (''screen_time'', ''Low''), (''sleep'', ''High''),
         (''color'', ''#00A39C''),
         (''icon'', [CHR 0xE2, CHR 0x80, CHR 0x9A, CHR 0xC3, CHR 0xB6, CHR 0xC2, CHR 0xB0])]),
      (''Digital Drift State'',
        [(''productivity'', ''Medium''), (''screen_time'', ''High''), (''sleep'', ''Medium''),
         (''color'', ''#8058a5''),
         (''icon'', [CHR 0xEF, CHR 0xA3, CHR 0xBF, CHR 0xC3, CHR 0xBC, CHR 0xC3, CHR 0xA5, CHR 0xC3, CHR 0x84])]),
      (''Balanced State'',
        [(''productivity'', ''Medium''), (''screen_time'', ''Medium''), (''sleep'', ''Medium''),
         (''color'', ''#306DCC''),
         (''icon'', [CHR 0xE2, CHR 0x80, CHR 0x9A, CHR 0xC3, CHR 0xB6, CHR 0xC3, CHR 0xB1, CHR 0xC3, CHR 0x94, CHR 0xE2, CHR 0x88, CHR 0x8F, CHR 0xC3, CHR 0xA8])]),
      (''Burnout State'',
        [(''productivity'', ''Low''), (''screen_time'', ''High''), (''sleep'', ''Low''),
         (''color'', ''#C44E52''),
         (''icon'', [CHR 0xEF, CHR 0xA3, CHR 0xBF, CHR 0xC3, CHR 0xBC, CHR 0xC3, CHR 0xAE, CHR 0xE2, CHR 0x80, CHR 0xA2])]),
      (''Fatigue State'',
        [(''productivity'', ''Medium''), (''screen_time'', ''Medium''), (''sleep'', ''Low''),
         (''color'', ''#FF8C00''),
         (''icon'', [CHR 0xEF, CHR 0xA3, CHR 0xBF, CHR 0xC3, CHR 0xBC, CHR 0xC3, CHR 0xB2, CHR 0xC2, CHR 0xA5])]),
      (''Unknown State'',
        [(''productivity'', ''N/A''), (''screen_time'', ''N/A''), (''sleep'', ''N/A''),
         (''color'', ''gray''),
         (''icon'', [CHR 0xE2, CHR 0x80, CHR 0x9A, CHR 0xC3, CHR 0xB9, CHR 0xC3, CHR 0xAC])])
     ]"

text \<open>\<open>s.startswith(p)\<close> and the substring test \<open>sub in s\<close>.\<close>

fun startswith :: "string \<Rightarrow> string \<Rightarrow> bool" where
  "startswith [] s = True"
| "startswith (p # ps) [] = False"
| "startswith (p # ps) (c # cs) = (p = c \<and> startswith ps cs)"

fun py_in :: "string \<Rightarrow> string \<Rightarrow> bool" where
  "py_in sub [] = (sub = [])"
| "py_in sub (c # cs) = (startswith sub (c # cs) \<or> py_in sub cs)"

text \<open>Line 320: \<open>"Error" in state_name or state_name == "Unknown State"\<close>.\<close>

definition is_error_result :: "string \<Rightarrow> bool" where
  "is_error_result state_name =
     (py_in ''Error'' state_name \<or> state_name = ''Unknown State'')"

text \<open>\<open>d[k]\<close> raises KeyError on a missing key.\<close>

definition dict_getitem :: "(string \<times> 'v) list \<Rightarrow> string \<Rightarrow> py_exception + 'v" where
  "dict_getitem d k = (case map_of d k of None \<Rightarrow> Inl (KeyError k) | Some v \<Rightarrow> Inr v)"

text \<open>
  Lines 318-330: classify, stop on the error test (the page shows the error and the
  script ends there), otherwise index the display table and read the colour.
\<close>

datatype analysis =
    Stopped string
  | Styled string "(string \<times> string) list" string

definition analysis_step ::
  "'a module_state_scheme \<Rightarrow> real \<Rightarrow> real \<Rightarrow> real \<Rightarrow> py_exception + analysis" where
  "analysis_step st sleep_hours screen_time productivity_score =
     (case classify_rhythm_state st sleep_hours screen_time productivity_score of
        Inl e \<Rightarrow> Inl e
      | Inr state_name \<Rightarrow>
          if is_error_result state_name then Inr (Stopped state_name)
          else
            (case dict_getitem RHYTHM_STATES state_name of
               Inl e \<Rightarrow> Inl e
             | Inr state_info \<Rightarrow>
                 (case dict_getitem state_info ''color'' of
                    Inl e \<Rightarrow> Inl e
                  | Inr state_color \<Rightarrow> Inr (Styled state_name state_info state_color))))"

text \<open>
  The results \<open>classify_rhythm_state\<close> returns on its failure paths: the guard of line 36,
  the handlers of lines 52 and 54, and the default of the table lookup of line 49.
\<close>

definition is_failure_sentinel :: "string \<Rightarrow> bool" where
  "is_failure_sentinel r =
     (r = ''Classification Error''
      \<or> r = ''Model Not Fitted Error''
      \<or> startswith ''Classification Error: '' r
      \<or> r = ''Unknown State'')"

section \<open>unsupervised\_analysis.py: the trainer's feature matrix (lines 18-25)\<close>

text \<open>
  The cells of the feature columns are 64-bit floating point numbers. A cell that holds
  a number holds a finite one (any real stands for it here) or an infinity; a missing cell
  (NaN) is \<open>None\<close>. A column is the list of its cells, a data frame its columns with
  their names, in order.
\<close>

datatype float64 = Finite real | PosInf | NegInf

type_synonym column = "float64 option list"
type_synonym dataframe = "(string \<times> column) list"

definition CLUSTER_FEATURES :: "string list" where
  "CLUSTER_FEATURES = [''screen_time_hours'', ''sleep_hours'', ''productivity_0_100'']"

text \<open>\<open>df[names]\<close>: the named columns in the order of \<open>names\<close>; KeyError when one is missing.\<close>

fun getitem_columns :: "dataframe \<Rightarrow> string list \<Rightarrow> py_exception + dataframe" where
  "getitem_columns df [] = Inr []"
| "getitem_columns df (c # cs) =
     (case map_of df c of
        None \<Rightarrow> Inl (KeyError c)
      | Some col \<Rightarrow>
          (case getitem_columns df cs of
             Inl e \<Rightarrow> Inl e
           | Inr rest \<Rightarrow> Inr ((c, col) # rest)))"

text \<open>\<open>df.isnull().values.any()\<close>.\<close>

definition isnull_any :: "dataframe \<Rightarrow> bool" where
  "isnull_any df = list_ex (\<lambda>cc. list_ex (\<lambda>v. v = None) (snd cc)) df"

text \<open>
  \<open>df.mean()\<close>: the series that has, for each column, what the library's mean of that
  column is. The library computes it in floating point over the cells that are not
  missing, in an order of its own; the computation is not part of the repository, so it
  is the parameter \<open>series_mean\<close>, a function of the column whose value is a number or
  NaN (\<open>None\<close>).
\<close>

definition df_mean ::
  "(column \<Rightarrow> float64 option) \<Rightarrow> dataframe \<Rightarrow> (string \<times> float64 option) list" where
  "df_mean series_mean df = map (\<lambda>cc. (fst cc, series_mean (snd cc))) df"

text \<open>
  \<open>df.fillna(series)\<close>: a missing cell of column \<open>c\<close> takes the value the series has for
  \<open>c\<close> (and stays missing when that is NaN); a column the series does not name is left
  as it is.
\<close>

definition fillna_column :: "column \<Rightarrow> float64 option \<Rightarrow> column" where
  "fillna_column col m = map (\<lambda>v. case v of None \<Rightarrow> m | Some x \<Rightarrow> Some x) col"

definition fillna :: "dataframe \<Rightarrow> (string \<times> float64 option) list \<Rightarrow> dataframe" where
  "fillna df series =
     map (\<lambda>cc. (fst cc,
                (case map_of series (fst cc) of
                   None \<Rightarrow> snd cc
                 | Some m \<Rightarrow> fillna_column (snd cc) m))) df"

text \<open>Lines 19-25: select the feature columns, then impute when any cell is missing.\<close>

definition data_for_clustering ::
  "(column \<Rightarrow> float64 option) \<Rightarrow> dataframe \<Rightarrow> py_exception + dataframe" where
  "data_for_clustering series_mean df =
     (case getitem_columns df CLUSTER_FEATURES of
        Inl e \<Rightarrow> Inl e
      | Inr d \<Rightarrow> Inr (if isnull_any d then fillna d (df_mean series_mean d) else d))"

text \<open>Row \<open>i\<close> of the matrix the trainer hands to the scaler.\<close>

definition matrix_row :: "dataframe \<Rightarrow> nat \<Rightarrow> float64 option list" where
  "matrix_row d i = map (\<lambda>cc. snd cc ! i) d"

section \<open>Import followed by a call\<close>


section \<open>Calls of the classifier when a method call may have several outcomes\<close>

text \<open>
  An object whose method consults a random source or a state of its own may end the same
  call in different ways. Such an object is given by the outcomes each call may have:
  \<open>transform_outcome s X a\<close> says that \<open>SCALER.transform(X)\<close> may return or raise \<open>a\<close>.
\<close>

record scaler_calls =
  transform_outcome :: "real list list \<Rightarrow> py_exception + real list list \<Rightarrow> bool"

record kmeans_calls =
  predict_outcome :: "real list list \<Rightarrow> py_exception + int list \<Rightarrow> bool"

text \<open>
  \<open>classify_run M S sleep_hours screen_time productivity_score r\<close>: with the globals
  \<open>KMEANS_MODEL = M\<close> and \<open>SCALER = S\<close>, a call of \<open>classify_rhythm_state\<close> may return \<open>r\<close>.
  One rule for each way through lines 35-54: the guard (either global is \<open>None\<close>), an
  exception of \<open>transform\<close>, an exception of \<open>predict\<close>, the index error on an empty
  prediction, and the table lookup. The function reads nothing else and writes nothing.
\<close>

inductive classify_run ::
  "kmeans_calls option \<Rightarrow> scaler_calls option \<Rightarrow> real \<Rightarrow> real \<Rightarrow> real \<Rightarrow> string \<Rightarrow> bool" where
  no_model:
    "classify_run None S sleep_hours screen_time productivity_score ''Classification Error''"
| no_scaler:
    "classify_run M None sleep_hours screen_time productivity_score ''Classification Error''"
| transform_raises:
    "transform_outcome s (user_input sleep_hours screen_time productivity_score) (Inl e) \<Longrightarrow>
     classify_run (Some m) (Some s) sleep_hours screen_time productivity_score
       (case e of NotFittedError msg \<Rightarrow> ''Model Not Fitted Error''
        | _ \<Rightarrow> ''Classification Error: '' @ str e)"
| predict_raises:
    "transform_outcome s (user_input sleep_hours screen_time productivity_score)
       (Inr scaled_input) \<Longrightarrow>
     predict_outcome m scaled_input (Inl e) \<Longrightarrow>
     classify_run (Some m) (Some s) sleep_hours screen_time productivity_score
       (case e of NotFittedError msg \<Rightarrow> ''Model Not Fitted Error''
        | _ \<Rightarrow> ''Classification Error: '' @ str e)"
| no_label:
    "transform_outcome s (user_input sleep_hours screen_time productivity_score)
       (Inr scaled_input) \<Longrightarrow>
     predict_outcome m scaled_input (Inr []) \<Longrightarrow>
     classify_run (Some m) (Some s) sleep_hours screen_time productivity_score
       (''Classification Error: '' @ ''index 0 is out of bounds for axis 0 with size 0'')"
| looked_up:
    "transform_outcome s (user_input sleep_hours screen_time productivity_score)
       (Inr scaled_input) \<Longrightarrow>
     predict_outcome m scaled_input (Inr (cluster_index # rest)) \<Longrightarrow>
     classify_run (Some m) (Some s) sleep_hours screen_time productivity_score
       (dict_get CLUSTER_TO_STATE cluster_index ''Unknown State'')"

text \<open>An object whose methods are functions has one outcome for each call.\<close>

definition scaler_calls_of :: "scaler \<Rightarrow> scaler_calls" where
  "scaler_calls_of s = \<lparr>transform_outcome = (\<lambda>X a. transform s X = a)\<rparr>"

definition kmeans_calls_of :: "kmeans \<Rightarrow> kmeans_calls" where
  "kmeans_calls_of m = \<lparr>predict_outcome = (\<lambda>X a. predict m X = a)\<rparr>"

section \<open>Concrete inputs\<close>

text \<open>
  A model with a sixth centroid, as a training run with another cluster count would
  leave it, and a small dataset with a missing cell in two of the feature columns and a
  column the trainer does not select.
\<close>

definition six_centers :: "real list list" where
  "six_centers = crafted_centers @ [[-3/2, 2, -9/4]]"

definition sample_df :: dataframe where
  "sample_df =
     [(''age'', [Some (Finite 31), Some (Finite 45), Some (Finite 27)]),
      (''sleep_hours'', [Some (Finite 8), Some (Finite 7), Some (Finite 6)]),
      (''screen_time_hours'', [Some (Finite 2), None, Some (Finite 4)]),
      (''productivity_0_100'', [Some (Finite 80), Some (Finite 60), None])]"

text \<open>
  What the library's mean is on the three feature columns of this dataset (the sums 6,
  21 and 140 and the quotients 3, 7 and 70 are computed without rounding); NaN stands
  for every other column here.
\<close>

definition sample_means :: "column \<Rightarrow> float64 option" where
  "sample_means col =
     (if col = [Some (Finite 2), None, Some (Finite 4)] then Some (Finite 3)
      else if col = [Some (Finite 8), Some (Finite 7), Some (Finite 6)] then Some (Finite 7)
      else if col = [Some (Finite 80), Some (Finite 60), None] then Some (Finite 70)
      else None)"

text \<open>
  A scaler that answers the vector (2, 8, 80) only and raises on every other one, and a
  scaler whose transform has two outcomes for the same input, as one that draws from a
  random source would.
\<close>

definition probe_scaler :: scaler where
  "probe_scaler =
     \<lparr>transform = (\<lambda>X. if X = [[2, 8, 80]] then Inr [[-3/2, 1, 3/2]]
                        else Inl (PyException ''another vector''))\<rparr>"

definition random_scaler_calls :: scaler_calls where
  "random_scaler_calls =
     \<lparr>transform_outcome = (\<lambda>X a. a = Inr [[-3/2, 1, 7/4]] \<or> a = Inr [[0, 0, 0]])\<rparr>"

section \<open>The lookup table\<close>

text \<open>
  C4. The table \<open>CLUSTER_TO_STATE\<close> has exactly the keys 0, 1, 2, 3 and 4, every key has a
  non-empty label, the labels are pairwise distinct, and the labels are exactly the five
  state names, each of them the label of exactly one entry.
\<close>

theorem cluster_to_state_table:
  "dom (map_of CLUSTER_TO_STATE) = {0, 1, 2, 3, 4}
   \<and> distinct (map fst CLUSTER_TO_STATE)
   \<and> length CLUSTER_TO_STATE = 5
   \<and> [] \<notin> set (map snd CLUSTER_TO_STATE)
   \<and> distinct (map snd CLUSTER_TO_STATE)
   \<and> set (map snd CLUSTER_TO_STATE) =
       {''Burnout State'', ''Flow State'', ''Balanced State'', ''Fatigue State'',
        ''Digital Drift State''}
   \<and> count_list (map snd CLUSTER_TO_STATE) ''Burnout State'' = 1
   \<and> count_list (map snd CLUSTER_TO_STATE) ''Flow State'' = 1
   \<and> count_list (map snd CLUSTER_TO_STATE) ''Balanced State'' = 1
   \<and> count_list (map snd CLUSTER_TO_STATE) ''Fatigue State'' = 1
   \<and> count_list (map snd CLUSTER_TO_STATE) ''Digital Drift State'' = 1"
  by (simp add: CLUSTER_TO_STATE_def dom_map_of_conv_image_fst insert_commute)

section \<open>Strings and the results of the classifier\<close>

lemma py_in_Error_generic: "py_in ''Error'' (''Classification Error: '' @ e)"
  by simp

lemma startswith_append: "startswith p (p @ r)"
  by (induction p) simp_all

lemma startswith_iff: "startswith p s \<longleftrightarrow> (\<exists>r. s = p @ r)"
proof (induction p s rule: startswith.induct)
  case (1 s) show ?case by simp
next
  case (2 p ps) show ?case by simp
next
  case (3 p ps c cs) then show ?case by auto
qed

lemma dict_get_table:
  "dict_get CLUSTER_TO_STATE i ''Unknown State'' =
     (if i = 0 then ''Burnout State'' else if i = 1 then ''Flow State''
      else if i = 2 then ''Balanced State'' else if i = 3 then ''Fatigue State''
      else if i = 4 then ''Digital Drift State'' else ''Unknown State'')"
  by (simp add: dict_get_def CLUSTER_TO_STATE_def)

lemma labels_not_error:
  "\<not> is_error_result ''Burnout State''" "\<not> is_error_result ''Flow State''"
  "\<not> is_error_result ''Balanced State''" "\<not> is_error_result ''Fatigue State''"
  "\<not> is_error_result ''Digital Drift State''"
  by (simp_all add: is_error_result_def)

lemma labels_not_sentinel:
  "\<not> is_failure_sentinel ''Burnout State''" "\<not> is_failure_sentinel ''Flow State''"
  "\<not> is_failure_sentinel ''Balanced State''" "\<not> is_failure_sentinel ''Fatigue State''"
  "\<not> is_failure_sentinel ''Digital Drift State''"
  by (simp_all add: is_failure_sentinel_def)

lemma sentinels_error:
  "is_error_result ''Classification Error''" "is_error_result ''Model Not Fitted Error''"
  "is_error_result ''Unknown State''" "is_error_result (''Classification Error: '' @ e)"
  by (simp_all add: is_error_result_def)

lemma sentinels_sentinel:
  "is_failure_sentinel ''Classification Error''" "is_failure_sentinel ''Model Not Fitted Error''"
  "is_failure_sentinel ''Unknown State''" "is_failure_sentinel (''Classification Error: '' @ e)"
  by (simp_all add: is_failure_sentinel_def)

lemma set_labels:
  "snd ` set CLUSTER_TO_STATE =
     {''Burnout State'', ''Flow State'', ''Balanced State'', ''Fatigue State'',
      ''Digital Drift State''}"
  by (simp add: CLUSTER_TO_STATE_def)

text \<open>The result of the try block followed by the handlers.\<close>

lemma try_block_cases:
  "(\<exists>e. try_block m s sl sc pr = Inl e) \<or>
   (\<exists>i. try_block m s sl sc pr = Inr (dict_get CLUSTER_TO_STATE i ''Unknown State''))"
  by (auto simp: try_block_def split: sum.splits list.splits)

lemma classify_loaded:
  "KMEANS_MODEL st = Some m \<Longrightarrow> SCALER st = Some s \<Longrightarrow>
   classify_rhythm_state st sl sc pr =
     (case try_block m s sl sc pr of
        Inr state_name \<Rightarrow> Inr state_name
      | Inl (NotFittedError msg) \<Rightarrow> Inr ''Model Not Fitted Error''
      | Inl e \<Rightarrow> Inr (''Classification Error: '' @ str e))"
  by (simp add: classify_rhythm_state_def)

lemma classify_unloaded:
  "KMEANS_MODEL st = None \<or> SCALER st = None \<Longrightarrow>
   classify_rhythm_state st sl sc pr = Inr ''Classification Error''"
  by (auto simp: classify_rhythm_state_def split: option.splits)

lemma classify_result:
  "\<exists>r. classify_rhythm_state st sl sc pr = Inr r \<and>
     (r \<in> set (map snd CLUSTER_TO_STATE) \<and> \<not> is_failure_sentinel r \<and> \<not> is_error_result r
      \<or> r \<notin> set (map snd CLUSTER_TO_STATE) \<and> is_failure_sentinel r \<and> is_error_result r)"
proof (cases "KMEANS_MODEL st")
  case None
  then show ?thesis
    by (simp add: classify_unloaded set_labels sentinels_error sentinels_sentinel)
next
  case (Some m)
  show ?thesis
  proof (cases "SCALER st")
    case None
    then show ?thesis
      by (simp add: classify_unloaded set_labels sentinels_error sentinels_sentinel)
  next
    case s: (Some s)
    from try_block_cases [of m s sl sc pr] show ?thesis
    proof
      assume "\<exists>e. try_block m s sl sc pr = Inl e"
      then obtain e where e: "try_block m s sl sc pr = Inl e" ..
      show ?thesis
        by (cases e)
          (simp_all add: classify_loaded [OF Some s] e set_labels is_error_result_def
            is_failure_sentinel_def)
    next
      assume "\<exists>i. try_block m s sl sc pr = Inr (dict_get CLUSTER_TO_STATE i ''Unknown State'')"
      then obtain i where i: "try_block m s sl sc pr = Inr (dict_get CLUSTER_TO_STATE i ''Unknown State'')" ..
      show ?thesis
        by (simp add: classify_loaded [OF Some s] i dict_get_table set_labels sentinels_error
            sentinels_sentinel labels_not_error labels_not_sentinel)
    qed
  qed
qed

section \<open>The feature order (classifier and trainer)\<close>

subsection \<open>The trainer's matrix\<close>

lemma getitem_features:
  "getitem_columns df CLUSTER_FEATURES = Inr d \<longleftrightarrow>
     (\<exists>c0 c1 c2. map_of df ''screen_time_hours'' = Some c0
        \<and> map_of df ''sleep_hours'' = Some c1
        \<and> map_of df ''productivity_0_100'' = Some c2
        \<and> d = [(''screen_time_hours'', c0), (''sleep_hours'', c1),
                (''productivity_0_100'', c2)])"
  by (auto simp: CLUSTER_FEATURES_def split: option.splits)

lemma fillna_features:
  "fillna [(''screen_time_hours'', c0), (''sleep_hours'', c1), (''productivity_0_100'', c2)]
     (df_mean series_mean
        [(''screen_time_hours'', c0), (''sleep_hours'', c1), (''productivity_0_100'', c2)])
   = [(''screen_time_hours'', fillna_column c0 (series_mean c0)),
      (''sleep_hours'', fillna_column c1 (series_mean c1)),
      (''productivity_0_100'', fillna_column c2 (series_mean c2))]"
  by (simp add: fillna_def df_mean_def)

lemma isnull_any_features:
  "isnull_any [(''screen_time_hours'', c0), (''sleep_hours'', c1), (''productivity_0_100'', c2)]
     \<longleftrightarrow> None \<in> set c0 \<or> None \<in> set c1 \<or> None \<in> set c2"
  by (auto simp: isnull_any_def list_ex_iff)


lemma nth_fillna_column:
  "i < length col \<Longrightarrow>
   fillna_column col m ! i = (case col ! i of None \<Rightarrow> m | Some x \<Rightarrow> Some x)"
  by (simp add: fillna_column_def)



lemma data_for_clustering_features:
  assumes "data_for_clustering series_mean df = Inr d"
  shows "\<exists>c0 c1 c2. map_of df ''screen_time_hours'' = Some c0
    \<and> map_of df ''sleep_hours'' = Some c1
    \<and> map_of df ''productivity_0_100'' = Some c2
    \<and> d = (if None \<in> set c0 \<or> None \<in> set c1 \<or> None \<in> set c2
           then [(''screen_time_hours'', fillna_column c0 (series_mean c0)),
                 (''sleep_hours'', fillna_column c1 (series_mean c1)),
                 (''productivity_0_100'', fillna_column c2 (series_mean c2))]
           else [(''screen_time_hours'', c0), (''sleep_hours'', c1),
                 (''productivity_0_100'', c2)])"
proof -
  from assms obtain d0 where d0: "getitem_columns df CLUSTER_FEATURES = Inr d0"
    and d: "d = (if isnull_any d0 then fillna d0 (df_mean series_mean d0) else d0)"
    by (auto simp: data_for_clustering_def split: sum.splits)
  from d0 obtain c0 c1 c2 where c: "map_of df ''screen_time_hours'' = Some c0"
      "map_of df ''sleep_hours'' = Some c1" "map_of df ''productivity_0_100'' = Some c2"
      "d0 = [(''screen_time_hours'', c0), (''sleep_hours'', c1), (''productivity_0_100'', c2)]"
    unfolding getitem_features by blast
  have "d = (if None \<in> set c0 \<or> None \<in> set c1 \<or> None \<in> set c2
           then [(''screen_time_hours'', fillna_column c0 (series_mean c0)),
                 (''sleep_hours'', fillna_column c1 (series_mean c1)),
                 (''productivity_0_100'', fillna_column c2 (series_mean c2))]
           else [(''screen_time_hours'', c0), (''sleep_hours'', c1),
                 (''productivity_0_100'', c2)])"
    unfolding d c(4) isnull_any_features fillna_features ..
  with c(1-3) show ?thesis by blast
qed




lemma sample_df_imputed:
  "data_for_clustering sample_means sample_df =
     Inr [(''screen_time_hours'', [Some (Finite 2), Some (Finite 3), Some (Finite 4)]),
          (''sleep_hours'', [Some (Finite 8), Some (Finite 7), Some (Finite 6)]),
          (''productivity_0_100'', [Some (Finite 80), Some (Finite 60), Some (Finite 70)])]"
  by (simp add: data_for_clustering_def sample_df_def CLUSTER_FEATURES_def isnull_any_def
      fillna_def df_mean_def fillna_column_def sample_means_def)



subsection \<open>The order contract\<close>

lemma trainer_row:
  assumes "data_for_clustering series_mean df = Inr d"
    and "map_of df ''screen_time_hours'' = Some c0"
    and "map_of df ''sleep_hours'' = Some c1"
    and "map_of df ''productivity_0_100'' = Some c2"
    and "i < length c0" and "i < length c1" and "i < length c2"
    and "c0 ! i = Some x0" and "c1 ! i = Some x1" and "c2 ! i = Some x2"
  shows "matrix_row d i = [Some x0, Some x1, Some x2]"
proof -
  from data_for_clustering_features [OF assms(1)] assms(2-4)
  have "d = (if None \<in> set c0 \<or> None \<in> set c1 \<or> None \<in> set c2
           then [(''screen_time_hours'', fillna_column c0 (series_mean c0)),
                 (''sleep_hours'', fillna_column c1 (series_mean c1)),
                 (''productivity_0_100'', fillna_column c2 (series_mean c2))]
           else [(''screen_time_hours'', c0), (''sleep_hours'', c1),
                 (''productivity_0_100'', c2)])"
    by auto
  with assms(5-10) show ?thesis
    by (simp add: matrix_row_def nth_fillna_column)
qed

lemma trainer_columns:
  assumes "data_for_clustering series_mean df = Inr d"
  shows "map fst d = [''screen_time_hours'', ''sleep_hours'', ''productivity_0_100'']"
  using data_for_clustering_features [OF assms] by auto

text \<open>
  What a call with both artifacts loaded returns, from what the scaler does with the
  vector (screen time, sleep, productivity) and the model with the scaler's output.
\<close>

lemma classify_by_vector:
  "classify_rhythm_state \<lparr>KMEANS_MODEL = Some m, SCALER = Some s\<rparr> sl sc pr =
     (case transform s [[sc, sl, pr]] of
        Inl e \<Rightarrow> Inr (case e of NotFittedError msg \<Rightarrow> ''Model Not Fitted Error''
                       | _ \<Rightarrow> ''Classification Error: '' @ str e)
      | Inr y \<Rightarrow>
          (case predict m y of
             Inl e \<Rightarrow> Inr (case e of NotFittedError msg \<Rightarrow> ''Model Not Fitted Error''
                            | _ \<Rightarrow> ''Classification Error: '' @ str e)
           | Inr [] \<Rightarrow>
               Inr ''Classification Error: index 0 is out of bounds for axis 0 with size 0''
           | Inr (i # rest) \<Rightarrow> Inr (dict_get CLUSTER_TO_STATE i ''Unknown State'')))"
  by (simp add: classify_rhythm_state_def try_block_def user_input_def
      split: sum.splits list.splits py_exception.splits)

text \<open>
  C1. The classifier builds the one-row matrix (screen_time, sleep_hours,
  productivity_score) and gives it to the scaler, and the scaler's output for it to the
  model: what \<open>transform\<close> does with this vector, and \<open>predict\<close> with the output, decides
  the result, and the scaler is consulted at no other vector. The trainer's matrix has
  the columns screen_time_hours, sleep_hours, productivity_0_100 in this order, so the
  training row of a record with the same three quantities is the classifier's vector,
  position by position.
\<close>

theorem feature_order_contract:
  "user_input sleep_hours screen_time productivity_score
     = [[screen_time, sleep_hours, productivity_score]]
   \<and> (transform s [[screen_time, sleep_hours, productivity_score]] = Inl e
      \<longrightarrow> classify_rhythm_state \<lparr>KMEANS_MODEL = Some m, SCALER = Some s\<rparr>
              sleep_hours screen_time productivity_score
          = Inr (case e of NotFittedError msg \<Rightarrow> ''Model Not Fitted Error''
                 | _ \<Rightarrow> ''Classification Error: '' @ str e))
   \<and> (transform s [[screen_time, sleep_hours, productivity_score]] = Inr scaled_input
        \<and> predict m scaled_input = Inl e
      \<longrightarrow> classify_rhythm_state \<lparr>KMEANS_MODEL = Some m, SCALER = Some s\<rparr>
              sleep_hours screen_time productivity_score
          = Inr (case e of NotFittedError msg \<Rightarrow> ''Model Not Fitted Error''
                 | _ \<Rightarrow> ''Classification Error: '' @ str e))
   \<and> (transform s [[screen_time, sleep_hours, productivity_score]] = Inr scaled_input
        \<and> predict m scaled_input = Inr (cluster_index # rest)
      \<longrightarrow> classify_rhythm_state \<lparr>KMEANS_MODEL = Some m, SCALER = Some s\<rparr>
              sleep_hours screen_time productivity_score
          = Inr (dict_get CLUSTER_TO_STATE cluster_index ''Unknown State''))
   \<and> (transform s [[screen_time, sleep_hours, productivity_score]]
          = transform s' [[screen_time, sleep_hours, productivity_score]]
      \<longrightarrow> classify_rhythm_state \<lparr>KMEANS_MODEL = Some m, SCALER = Some s\<rparr>
              sleep_hours screen_time productivity_score
          = classify_rhythm_state \<lparr>KMEANS_MODEL = Some m, SCALER = Some s'\<rparr>
              sleep_hours screen_time productivity_score)
   \<and> (transform s [[screen_time, sleep_hours, productivity_score]] = Inr scaled_input
        \<and> predict m scaled_input = predict m' scaled_input
      \<longrightarrow> classify_rhythm_state \<lparr>KMEANS_MODEL = Some m, SCALER = Some s\<rparr>
              sleep_hours screen_time productivity_score
          = classify_rhythm_state \<lparr>KMEANS_MODEL = Some m', SCALER = Some s\<rparr>
              sleep_hours screen_time productivity_score)
   \<and> (data_for_clustering series_mean df = Inr d
      \<longrightarrow> map fst d = [''screen_time_hours'', ''sleep_hours'', ''productivity_0_100'']
          \<and> map fst d = CLUSTER_FEATURES)
   \<and> (data_for_clustering series_mean df = Inr d
        \<and> map_of df ''screen_time_hours'' = Some c0
        \<and> map_of df ''sleep_hours'' = Some c1
        \<and> map_of df ''productivity_0_100'' = Some c2
        \<and> i < length c0 \<and> i < length c1 \<and> i < length c2
        \<and> c0 ! i = Some (Finite screen_time) \<and> c1 ! i = Some (Finite sleep_hours)
        \<and> c2 ! i = Some (Finite productivity_score)
      \<longrightarrow> [matrix_row d i]
            = map (map (\<lambda>x. Some (Finite x)))
                (user_input sleep_hours screen_time productivity_score))"
proof (intro conjI impI)
  show "user_input sleep_hours screen_time productivity_score
     = [[screen_time, sleep_hours, productivity_score]]"
    by (simp add: user_input_def)
next
  assume "transform s [[screen_time, sleep_hours, productivity_score]] = Inl e"
  then show "classify_rhythm_state \<lparr>KMEANS_MODEL = Some m, SCALER = Some s\<rparr>
              sleep_hours screen_time productivity_score
          = Inr (case e of NotFittedError msg \<Rightarrow> ''Model Not Fitted Error''
                 | _ \<Rightarrow> ''Classification Error: '' @ str e)"
    by (simp add: classify_by_vector)
next
  assume "transform s [[screen_time, sleep_hours, productivity_score]] = Inr scaled_input
        \<and> predict m scaled_input = Inl e"
  then show "classify_rhythm_state \<lparr>KMEANS_MODEL = Some m, SCALER = Some s\<rparr>
              sleep_hours screen_time productivity_score
          = Inr (case e of NotFittedError msg \<Rightarrow> ''Model Not Fitted Error''
                 | _ \<Rightarrow> ''Classification Error: '' @ str e)"
    by (simp add: classify_by_vector)
next
  assume "transform s [[screen_time, sleep_hours, productivity_score]] = Inr scaled_input
        \<and> predict m scaled_input = Inr (cluster_index # rest)"
  then show "classify_rhythm_state \<lparr>KMEANS_MODEL = Some m, SCALER = Some s\<rparr>
              sleep_hours screen_time productivity_score
          = Inr (dict_get CLUSTER_TO_STATE cluster_index ''Unknown State'')"
    by (simp add: classify_by_vector)
next
  assume "transform s [[screen_time, sleep_hours, productivity_score]]
          = transform s' [[screen_time, sleep_hours, productivity_score]]"
  then show "classify_rhythm_state \<lparr>KMEANS_MODEL = Some m, SCALER = Some s\<rparr>
              sleep_hours screen_time productivity_score
          = classify_rhythm_state \<lparr>KMEANS_MODEL = Some m, SCALER = Some s'\<rparr>
              sleep_hours screen_time productivity_score"
    by (simp add: classify_by_vector)
next
  assume "transform s [[screen_time, sleep_hours, productivity_score]] = Inr scaled_input
        \<and> predict m scaled_input = predict m' scaled_input"
  then show "classify_rhythm_state \<lparr>KMEANS_MODEL = Some m, SCALER = Some s\<rparr>
              sleep_hours screen_time productivity_score
          = classify_rhythm_state \<lparr>KMEANS_MODEL = Some m', SCALER = Some s\<rparr>
              sleep_hours screen_time productivity_score"
    by (simp add: classify_by_vector)
next
  assume run: "data_for_clustering series_mean df = Inr d"
  then show "map fst d = [''screen_time_hours'', ''sleep_hours'', ''productivity_0_100'']"
    by (rule trainer_columns)
  from run show "map fst d = CLUSTER_FEATURES"
    by (simp add: trainer_columns CLUSTER_FEATURES_def)
next
  assume "data_for_clustering series_mean df = Inr d
        \<and> map_of df ''screen_time_hours'' = Some c0
        \<and> map_of df ''sleep_hours'' = Some c1
        \<and> map_of df ''productivity_0_100'' = Some c2
        \<and> i < length c0 \<and> i < length c1 \<and> i < length c2
        \<and> c0 ! i = Some (Finite screen_time) \<and> c1 ! i = Some (Finite sleep_hours)
        \<and> c2 ! i = Some (Finite productivity_score)"
  then have "matrix_row d i
      = [Some (Finite screen_time), Some (Finite sleep_hours), Some (Finite productivity_score)]"
    by (intro trainer_row [of series_mean df d c0 c1 c2]) simp_all
  then show "[matrix_row d i]
            = map (map (\<lambda>x. Some (Finite x)))
                (user_input sleep_hours screen_time productivity_score)"
    by (simp add: user_input_def)
qed

lemma probe_answers: "transform probe_scaler [[2, 8, 80]] = Inr [[-3/2, 1, 3/2]]"
  by (simp add: probe_scaler_def)

lemma probe_refuses:
  "transform probe_scaler [[8, 2, 80]] = Inl (PyException ''another vector'')"
  by (simp add: probe_scaler_def)

lemma crafted_predict_probe: "predict (KMeans crafted_centers) [[-3/2, 1, 3/2]] = Inr [1]"
  by code_simp

lemma six_predict_probe: "predict (KMeans six_centers) [[-3/2, 1, 3/2]] = Inr [1]"
  by code_simp

lemma unfitted_predict:
  "predict unfitted_KMeans [[-3/2, 1, 3/2]]
     = Inl (NotFittedError ''This KMeans instance is not fitted yet.'')"
  by (simp add: unfitted_KMeans_def)

lemma unfitted_transform:
  "transform unfitted_StandardScaler [[2, 8, 80]]
     = Inl (NotFittedError ''This StandardScaler instance is not fitted yet.'')"
  by (simp add: unfitted_StandardScaler_def)

lemma crafted_transform_probe: "transform crafted_scaler [[2, 8, 80]] = Inr [[-3/2, 1, 3/2]]"
  by code_simp

theorem feature_order_contract_witness:
  "transform probe_scaler [[2, 8, 80]] = Inr [[-3/2, 1, 3/2]]
   \<and> predict (KMeans crafted_centers) [[-3/2, 1, 3/2]] = Inr [1]
   \<and> classify_rhythm_state
        \<lparr>KMEANS_MODEL = Some (KMeans crafted_centers), SCALER = Some probe_scaler\<rparr> 8 2 80
      = Inr ''Flow State''
   \<and> transform probe_scaler [[8, 2, 80]] = Inl (PyException ''another vector'')
   \<and> classify_rhythm_state
        \<lparr>KMEANS_MODEL = Some (KMeans crafted_centers), SCALER = Some probe_scaler\<rparr> 2 8 80
      = Inr ''Classification Error: another vector''
   \<and> transform unfitted_StandardScaler [[2, 8, 80]]
      = Inl (NotFittedError ''This StandardScaler instance is not fitted yet.'')
   \<and> classify_rhythm_state
        \<lparr>KMEANS_MODEL = Some (KMeans crafted_centers),
         SCALER = Some unfitted_StandardScaler\<rparr> 8 2 80
      = Inr ''Model Not Fitted Error''
   \<and> predict unfitted_KMeans [[-3/2, 1, 3/2]]
      = Inl (NotFittedError ''This KMeans instance is not fitted yet.'')
   \<and> classify_rhythm_state
        \<lparr>KMEANS_MODEL = Some unfitted_KMeans, SCALER = Some probe_scaler\<rparr> 8 2 80
      = Inr ''Model Not Fitted Error''
   \<and> transform probe_scaler [[2, 8, 80]] = transform crafted_scaler [[2, 8, 80]]
   \<and> classify_rhythm_state
        \<lparr>KMEANS_MODEL = Some (KMeans crafted_centers), SCALER = Some probe_scaler\<rparr> 8 2 80
      = classify_rhythm_state
        \<lparr>KMEANS_MODEL = Some (KMeans crafted_centers), SCALER = Some crafted_scaler\<rparr> 8 2 80
   \<and> predict (KMeans crafted_centers) [[-3/2, 1, 3/2]]
      = predict (KMeans six_centers) [[-3/2, 1, 3/2]]
   \<and> classify_rhythm_state
        \<lparr>KMEANS_MODEL = Some (KMeans crafted_centers), SCALER = Some probe_scaler\<rparr> 8 2 80
      = classify_rhythm_state
        \<lparr>KMEANS_MODEL = Some (KMeans six_centers), SCALER = Some probe_scaler\<rparr> 8 2 80
   \<and> data_for_clustering sample_means sample_df =
       Inr [(''screen_time_hours'', [Some (Finite 2), Some (Finite 3), Some (Finite 4)]),
            (''sleep_hours'', [Some (Finite 8), Some (Finite 7), Some (Finite 6)]),
            (''productivity_0_100'', [Some (Finite 80), Some (Finite 60), Some (Finite 70)])]
   \<and> map_of sample_df ''screen_time_hours'' = Some [Some (Finite 2), None, Some (Finite 4)]
   \<and> map_of sample_df ''sleep_hours'' = Some [Some (Finite 8), Some (Finite 7), Some (Finite 6)]
   \<and> map_of sample_df ''productivity_0_100'' = Some [Some (Finite 80), Some (Finite 60), None]
   \<and> [matrix_row
        [(''screen_time_hours'', [Some (Finite 2), Some (Finite 3), Some (Finite 4)]),
         (''sleep_hours'', [Some (Finite 8), Some (Finite 7), Some (Finite 6)]),
         (''productivity_0_100'', [Some (Finite 80), Some (Finite 60), Some (Finite 70)])] 0]
      = map (map (\<lambda>x. Some (Finite x))) (user_input 8 2 80)"
proof -
  let ?d = "[(''screen_time_hours'', [Some (Finite 2), Some (Finite 3), Some (Finite 4)]),
            (''sleep_hours'', [Some (Finite 8), Some (Finite 7), Some (Finite 6)]),
            (''productivity_0_100'', [Some (Finite 80), Some (Finite 60), Some (Finite 70)])]"
  have cols: "map_of sample_df ''screen_time_hours'' = Some [Some (Finite 2), None, Some (Finite 4)]"
    "map_of sample_df ''sleep_hours'' = Some [Some (Finite 8), Some (Finite 7), Some (Finite 6)]"
    "map_of sample_df ''productivity_0_100'' = Some [Some (Finite 80), Some (Finite 60), None]"
    by (simp_all add: sample_df_def)
  have same_vector: "transform probe_scaler [[2, 8, 80]] = transform crafted_scaler [[2, 8, 80]]"
    by (simp only: probe_answers crafted_transform_probe)
  have same_prediction: "predict (KMeans crafted_centers) [[-3/2, 1, 3/2]]
      = predict (KMeans six_centers) [[-3/2, 1, 3/2]]"
    by (simp only: crafted_predict_probe six_predict_probe)
  note label = feature_order_contract
    [of 8 2 80 probe_scaler undefined "KMeans crafted_centers" "[[-3/2, 1, 3/2]]" 1 "[]"
      crafted_scaler "KMeans six_centers" sample_means sample_df ?d
      "[Some (Finite 2), None, Some (Finite 4)]"
      "[Some (Finite 8), Some (Finite 7), Some (Finite 6)]"
      "[Some (Finite 80), Some (Finite 60), None]" 0]
  note scaler_fault = feature_order_contract
    [of 8 2 80 unfitted_StandardScaler
      "NotFittedError ''This StandardScaler instance is not fitted yet.''"
      "KMeans crafted_centers"]
  note model_fault = feature_order_contract
    [of 8 2 80 probe_scaler
      "NotFittedError ''This KMeans instance is not fitted yet.''"
      unfitted_KMeans "[[-3/2, 1, 3/2]]"]
  note refused = feature_order_contract
    [of 2 8 80 probe_scaler "PyException ''another vector''" "KMeans crafted_centers"]
  from refused probe_refuses
  have r0: "classify_rhythm_state
        \<lparr>KMEANS_MODEL = Some (KMeans crafted_centers), SCALER = Some probe_scaler\<rparr> 2 8 80
      = Inr ''Classification Error: another vector''"
    by simp
  from label probe_answers crafted_predict_probe
  have r1: "classify_rhythm_state
        \<lparr>KMEANS_MODEL = Some (KMeans crafted_centers), SCALER = Some probe_scaler\<rparr> 8 2 80
      = Inr ''Flow State''"
    by (simp add: dict_get_table)
  from scaler_fault unfitted_transform
  have r2: "classify_rhythm_state
        \<lparr>KMEANS_MODEL = Some (KMeans crafted_centers),
         SCALER = Some unfitted_StandardScaler\<rparr> 8 2 80
      = Inr ''Model Not Fitted Error''"
    by simp
  from model_fault probe_answers unfitted_predict
  have r3: "classify_rhythm_state
        \<lparr>KMEANS_MODEL = Some unfitted_KMeans, SCALER = Some probe_scaler\<rparr> 8 2 80
      = Inr ''Model Not Fitted Error''"
    by simp
  from label same_vector
  have r4: "classify_rhythm_state
        \<lparr>KMEANS_MODEL = Some (KMeans crafted_centers), SCALER = Some probe_scaler\<rparr> 8 2 80
      = classify_rhythm_state
        \<lparr>KMEANS_MODEL = Some (KMeans crafted_centers), SCALER = Some crafted_scaler\<rparr> 8 2 80"
    by blast
  from label probe_answers same_prediction
  have r5: "classify_rhythm_state
        \<lparr>KMEANS_MODEL = Some (KMeans crafted_centers), SCALER = Some probe_scaler\<rparr> 8 2 80
      = classify_rhythm_state
        \<lparr>KMEANS_MODEL = Some (KMeans six_centers), SCALER = Some probe_scaler\<rparr> 8 2 80"
    by blast
  from label sample_df_imputed cols
  have r6: "[matrix_row ?d 0] = map (map (\<lambda>x. Some (Finite x))) (user_input 8 2 80)"
    by simp
  from probe_answers crafted_predict_probe r1 probe_refuses r0 unfitted_transform r2
    unfitted_predict r3
    same_vector r4 same_prediction r5 sample_df_imputed cols r6
  show ?thesis by (intro conjI)
qed

section \<open>The classifier's results\<close>

subsection \<open>Missing artifacts\<close>




subsection \<open>No exception leaves the function\<close>

text \<open>
  C3. For every state of the globals and every input the classifier returns a string, one
  of the five labels or one of the failure results; an exception raised by \<open>transform\<close>
  or by \<open>predict\<close> (or by indexing an empty prediction) is turned into
  "Model Not Fitted Error" or into "Classification Error: " followed by its message.
\<close>

theorem classify_never_raises:
  "(\<exists>r. classify_rhythm_state st sl sc pr = Inr r
        \<and> (r \<in> set (map snd CLUSTER_TO_STATE) \<or> is_failure_sentinel r))
   \<and> (KMEANS_MODEL st = Some m \<and> SCALER st = Some s
        \<and> transform s (user_input sl sc pr) = Inl e
      \<longrightarrow> classify_rhythm_state st sl sc pr =
            Inr (case e of NotFittedError msg \<Rightarrow> ''Model Not Fitted Error''
                 | _ \<Rightarrow> ''Classification Error: '' @ str e))
   \<and> (KMEANS_MODEL st = Some m \<and> SCALER st = Some s
        \<and> transform s (user_input sl sc pr) = Inr y \<and> predict m y = Inl e
      \<longrightarrow> classify_rhythm_state st sl sc pr =
            Inr (case e of NotFittedError msg \<Rightarrow> ''Model Not Fitted Error''
                 | _ \<Rightarrow> ''Classification Error: '' @ str e))
   \<and> (KMEANS_MODEL st = Some m \<and> SCALER st = Some s
        \<and> transform s (user_input sl sc pr) = Inr y \<and> predict m y = Inr []
      \<longrightarrow> classify_rhythm_state st sl sc pr =
            Inr ''Classification Error: index 0 is out of bounds for axis 0 with size 0'')"
proof (intro conjI impI)
  from classify_result [of st sl sc pr]
  show "\<exists>r. classify_rhythm_state st sl sc pr = Inr r
        \<and> (r \<in> set (map snd CLUSTER_TO_STATE) \<or> is_failure_sentinel r)"
    by blast
next
  assume "KMEANS_MODEL st = Some m \<and> SCALER st = Some s
        \<and> transform s (user_input sl sc pr) = Inl e"
  then show "classify_rhythm_state st sl sc pr =
            Inr (case e of NotFittedError msg \<Rightarrow> ''Model Not Fitted Error''
                 | _ \<Rightarrow> ''Classification Error: '' @ str e)"
    by (cases e) (simp_all add: classify_loaded try_block_def)
next
  assume "KMEANS_MODEL st = Some m \<and> SCALER st = Some s
        \<and> transform s (user_input sl sc pr) = Inr y \<and> predict m y = Inl e"
  then show "classify_rhythm_state st sl sc pr =
            Inr (case e of NotFittedError msg \<Rightarrow> ''Model Not Fitted Error''
                 | _ \<Rightarrow> ''Classification Error: '' @ str e)"
    by (cases e) (simp_all add: classify_loaded try_block_def)
next
  assume "KMEANS_MODEL st = Some m \<and> SCALER st = Some s
        \<and> transform s (user_input sl sc pr) = Inr y \<and> predict m y = Inr []"
  then show "classify_rhythm_state st sl sc pr =
            Inr ''Classification Error: index 0 is out of bounds for axis 0 with size 0''"
    by (simp add: classify_loaded try_block_def)
qed

lemma two_feature_scaler:
  "transform (StandardScaler [5, 7] [2, 1]) (user_input 8 2 85)
     = Inl (PyException ''X has a different number of features than StandardScaler was fitted with'')"
  by code_simp

lemma crafted_transform:
  "transform crafted_scaler (user_input 8 2 85) = Inr [[-3/2, 1, 7/4]]"
  by code_simp

theorem classify_never_raises_witness:
  "KMEANS_MODEL \<lparr>KMEANS_MODEL = Some unfitted_KMeans, SCALER = Some crafted_scaler\<rparr>
     = Some unfitted_KMeans
   \<and> SCALER \<lparr>KMEANS_MODEL = Some unfitted_KMeans, SCALER = Some crafted_scaler\<rparr>
     = Some crafted_scaler
   \<and> transform crafted_scaler (user_input 8 2 85) = Inr [[-3/2, 1, 7/4]]
   \<and> predict unfitted_KMeans [[-3/2, 1, 7/4]]
     = Inl (NotFittedError ''This KMeans instance is not fitted yet.'')
   \<and> classify_rhythm_state
       \<lparr>KMEANS_MODEL = Some unfitted_KMeans, SCALER = Some crafted_scaler\<rparr> 8 2 85
     = Inr ''Model Not Fitted Error''
   \<and> transform (StandardScaler [5, 7] [2, 1]) (user_input 8 2 85)
     = Inl (PyException ''X has a different number of features than StandardScaler was fitted with'')
   \<and> classify_rhythm_state
       \<lparr>KMEANS_MODEL = Some (KMeans crafted_centers),
        SCALER = Some (StandardScaler [5, 7] [2, 1])\<rparr> 8 2 85
     = Inr ''Classification Error: X has a different number of features than StandardScaler was fitted with''"
  using classify_never_raises
    [of "\<lparr>KMEANS_MODEL = Some unfitted_KMeans, SCALER = Some crafted_scaler\<rparr>" 8 2 85
      unfitted_KMeans crafted_scaler "NotFittedError ''This KMeans instance is not fitted yet.''"
      "[[-3/2, 1, 7/4]]"]
    classify_never_raises
    [of "\<lparr>KMEANS_MODEL = Some (KMeans crafted_centers),
          SCALER = Some (StandardScaler [5, 7] [2, 1])\<rparr>" 8 2 85
      "KMeans crafted_centers" "StandardScaler [5, 7] [2, 1]"
      "PyException ''X has a different number of features than StandardScaler was fitted with''"
      "[]"]
    crafted_transform two_feature_scaler
  by (simp add: unfitted_KMeans_def)

subsection \<open>Order sensitivity\<close>

lemma crafted_flow: "classify_rhythm_state crafted_state 8 2 85 = Inr ''Flow State''"
  by code_simp
lemma crafted_swapped_screen: "classify_rhythm_state crafted_state 2 8 85 = Inr ''Fatigue State''"
  by code_simp
lemma crafted_balanced: "classify_rhythm_state crafted_state 9 2 5 = Inr ''Balanced State''"
  by code_simp
lemma crafted_swapped_prod: "classify_rhythm_state crafted_state 5 2 9 = Inr ''Fatigue State''"
  by code_simp
lemma crafted_centers_distinct: "length crafted_centers = 5 \<and> distinct crafted_centers"
  by (simp add: crafted_centers_def)

text \<open>
  C7. With the crafted scaler and its five distinct centroids, exchanging the values
  passed as sleep and as screen time, or those passed as sleep and as productivity,
  changes the label.
\<close>

theorem feature_order_is_load_bearing:
  "length crafted_centers = 5 \<and> distinct crafted_centers
   \<and> classify_rhythm_state crafted_state 8 2 85 = Inr ''Flow State''
   \<and> classify_rhythm_state crafted_state 2 8 85 = Inr ''Fatigue State''
   \<and> classify_rhythm_state crafted_state 9 2 5 = Inr ''Balanced State''
   \<and> classify_rhythm_state crafted_state 5 2 9 = Inr ''Fatigue State''"
  using crafted_flow crafted_swapped_screen crafted_balanced crafted_swapped_prod
    crafted_centers_distinct by simp

subsection \<open>Determinism\<close>

text \<open>The results a call may have, by the outcomes of the two method calls.\<close>

lemma run_loaded:
  "classify_run (Some m) (Some s) sl sc pr r \<longleftrightarrow>
     (\<exists>a. transform_outcome s (user_input sl sc pr) a \<and>
        (case a of
           Inl e \<Rightarrow> r = (case e of NotFittedError msg \<Rightarrow> ''Model Not Fitted Error''
                           | _ \<Rightarrow> ''Classification Error: '' @ str e)
         | Inr y \<Rightarrow>
             (\<exists>b. predict_outcome m y b \<and>
                r = (case b of
                       Inl e \<Rightarrow> (case e of NotFittedError msg \<Rightarrow> ''Model Not Fitted Error''
                                  | _ \<Rightarrow> ''Classification Error: '' @ str e)
                     | Inr [] \<Rightarrow> ''Classification Error: index 0 is out of bounds for axis 0 with size 0''
                     | Inr (i # rest) \<Rightarrow> dict_get CLUSTER_TO_STATE i ''Unknown State''))))"
  (is "?run \<longleftrightarrow> ?outcomes")
proof
  assume ?run
  then show ?outcomes
  proof (cases rule: classify_run.cases)
    case (transform_raises e)
    then show ?thesis by (intro exI [of _ "Inl e"]) simp
  next
    case (predict_raises y e)
    then show ?thesis
      by (intro exI [of _ "Inr y"]) (simp, intro exI [of _ "Inl e"], simp)
  next
    case (no_label y)
    then show ?thesis
      by (intro exI [of _ "Inr y"]) (simp, intro exI [of _ "Inr []"], simp)
  next
    case (looked_up y i rest)
    then show ?thesis
      by (intro exI [of _ "Inr y"]) (simp, intro exI [of _ "Inr (i # rest)"], simp)
  qed
next
  assume ?outcomes
  then obtain a where a: "transform_outcome s (user_input sl sc pr) a"
    and r: "case a of
           Inl e \<Rightarrow> r = (case e of NotFittedError msg \<Rightarrow> ''Model Not Fitted Error''
                           | _ \<Rightarrow> ''Classification Error: '' @ str e)
         | Inr y \<Rightarrow>
             (\<exists>b. predict_outcome m y b \<and>
                r = (case b of
                       Inl e \<Rightarrow> (case e of NotFittedError msg \<Rightarrow> ''Model Not Fitted Error''
                                  | _ \<Rightarrow> ''Classification Error: '' @ str e)
                     | Inr [] \<Rightarrow> ''Classification Error: index 0 is out of bounds for axis 0 with size 0''
                     | Inr (i # rest) \<Rightarrow> dict_get CLUSTER_TO_STATE i ''Unknown State''))"
    by blast
  show ?run
  proof (cases a)
    case (Inl e)
    with a r show ?thesis by (simp add: classify_run.transform_raises)
  next
    case y: (Inr y)
    with r obtain b where b: "predict_outcome m y b"
      and r': "r = (case b of
                       Inl e \<Rightarrow> (case e of NotFittedError msg \<Rightarrow> ''Model Not Fitted Error''
                                  | _ \<Rightarrow> ''Classification Error: '' @ str e)
                     | Inr [] \<Rightarrow> ''Classification Error: index 0 is out of bounds for axis 0 with size 0''
                     | Inr (i # rest) \<Rightarrow> dict_get CLUSTER_TO_STATE i ''Unknown State'')"
      by auto
    show ?thesis
    proof (cases b)
      case (Inl e)
      with a b y r' show ?thesis by (simp add: classify_run.predict_raises)
    next
      case (Inr labels)
      show ?thesis
      proof (cases labels)
        case Nil
        from classify_run.no_label [of s sl sc pr y m] a b y Inr Nil r'
        show ?thesis by simp
      next
        case (Cons i rest)
        from classify_run.looked_up [of s sl sc pr y m i rest] a b y Inr Cons r'
        show ?thesis by simp
      qed
    qed
  qed
qed

lemma run_unloaded:
  "M = None \<or> S = None \<Longrightarrow> classify_run M S sl sc pr r \<longleftrightarrow> r = ''Classification Error''"
  by (auto simp: classify_run.simps)

text \<open>
  C6. When each call of the loaded scaler's \<open>transform\<close> and of the loaded model's
  \<open>predict\<close> has one outcome only (the artifacts are fixed: no random source, no state of
  their own), any two calls of the classifier with the same input return the same
  string: the function itself adds no source of variation.
\<close>

theorem classify_deterministic:
  assumes "\<And>s X a b. S = Some s \<Longrightarrow> transform_outcome s X a \<Longrightarrow> transform_outcome s X b
             \<Longrightarrow> a = b"
    and "\<And>m X a b. M = Some m \<Longrightarrow> predict_outcome m X a \<Longrightarrow> predict_outcome m X b
             \<Longrightarrow> a = b"
    and "classify_run M S sleep_hours screen_time productivity_score r"
    and "classify_run M S sleep_hours screen_time productivity_score r'"
  shows "r = r'"
proof (cases "M = None \<or> S = None")
  case True
  with assms(3,4) show ?thesis by (simp add: run_unloaded)
next
  case False
  then obtain m s where M: "M = Some m" and S: "S = Some s" by auto
  let ?X = "user_input sleep_hours screen_time productivity_score"
  let ?handled = "\<lambda>e. case e of NotFittedError msg \<Rightarrow> ''Model Not Fitted Error''
                           | _ \<Rightarrow> ''Classification Error: '' @ str e"
  let ?after = "\<lambda>y r. \<exists>b. predict_outcome m y b \<and>
                r = (case b of
                       Inl e \<Rightarrow> ?handled e
                     | Inr [] \<Rightarrow> ''Classification Error: index 0 is out of bounds for axis 0 with size 0''
                     | Inr (i # rest) \<Rightarrow> dict_get CLUSTER_TO_STATE i ''Unknown State'')"
  from assms(3) obtain a where a: "transform_outcome s ?X a"
    and r: "case a of Inl e \<Rightarrow> r = ?handled e | Inr y \<Rightarrow> ?after y r"
    unfolding M S run_loaded by blast
  from assms(4) obtain a' where a': "transform_outcome s ?X a'"
    and r': "case a' of Inl e \<Rightarrow> r' = ?handled e | Inr y \<Rightarrow> ?after y r'"
    unfolding M S run_loaded by blast
  from assms(1) [OF S a a'] have same: "a' = a" by simp
  show ?thesis
  proof (cases a)
    case (Inl e)
    with r r' same show ?thesis by simp
  next
    case (Inr y)
    with r obtain b where b: "predict_outcome m y b"
      and rb: "r = (case b of
                       Inl e \<Rightarrow> ?handled e
                     | Inr [] \<Rightarrow> ''Classification Error: index 0 is out of bounds for axis 0 with size 0''
                     | Inr (i # rest) \<Rightarrow> dict_get CLUSTER_TO_STATE i ''Unknown State'')"
      by auto
    from Inr r' same obtain b' where b': "predict_outcome m y b'"
      and rb': "r' = (case b' of
                       Inl e \<Rightarrow> ?handled e
                     | Inr [] \<Rightarrow> ''Classification Error: index 0 is out of bounds for axis 0 with size 0''
                     | Inr (i # rest) \<Rightarrow> dict_get CLUSTER_TO_STATE i ''Unknown State'')"
      by auto
    from assms(2) [OF M b b'] rb rb' show ?thesis by simp
  qed
qed

text \<open>
  For artifacts whose methods are functions, the results a call may have are the one
  result the function \<open>classify_rhythm_state\<close> gives.
\<close>

lemma classify_run_of_functions:
  "classify_run (map_option kmeans_calls_of (KMEANS_MODEL st))
       (map_option scaler_calls_of (SCALER st)) sl sc pr r
     \<longleftrightarrow> classify_rhythm_state st sl sc pr = Inr r"
proof (cases "KMEANS_MODEL st")
  case None
  then show ?thesis
    by (auto simp: run_unloaded classify_rhythm_state_def)
next
  case m: (Some m)
  show ?thesis
  proof (cases "SCALER st")
    case None
    with m show ?thesis
      by (auto simp: run_unloaded classify_rhythm_state_def)
  next
    case s: (Some s)
    show ?thesis
    proof (cases "transform s (user_input sl sc pr)")
      case (Inl e)
      with m s show ?thesis
        by (cases e)
          (auto simp: run_loaded scaler_calls_of_def kmeans_calls_of_def
            classify_rhythm_state_def try_block_def)
    next
      case y: (Inr y)
      show ?thesis
      proof (cases "predict m y")
        case (Inl e)
        with m s y show ?thesis
          by (cases e)
            (auto simp: run_loaded scaler_calls_of_def kmeans_calls_of_def
              classify_rhythm_state_def try_block_def)
      next
        case (Inr labels)
        with m s y show ?thesis
          by (cases labels)
            (auto simp: run_loaded scaler_calls_of_def kmeans_calls_of_def
              classify_rhythm_state_def try_block_def)
      qed
    qed
  qed
qed

text \<open>
  An artifact whose method has two outcomes for one input makes the result of the call
  depend on which of them occurs: with the scaler of two outcomes the same input is
  classified as Flow State in one run and as Balanced State in another.
\<close>

lemma crafted_predict_flow:
  "predict_outcome (kmeans_calls_of (KMeans crafted_centers)) [[-3/2, 1, 7/4]] (Inr [1])"
proof -
  have "predict (KMeans crafted_centers) [[-3/2, 1, 7/4]] = Inr [1]"
    by code_simp
  then show ?thesis by (simp add: kmeans_calls_of_def)
qed

lemma crafted_predict_balanced:
  "predict_outcome (kmeans_calls_of (KMeans crafted_centers)) [[0, 0, 0]] (Inr [2])"
proof -
  have "predict (KMeans crafted_centers) [[0, 0, 0]] = Inr [2]"
    by code_simp
  then show ?thesis by (simp add: kmeans_calls_of_def)
qed

lemma random_scaler_two_results:
  "classify_run (Some (kmeans_calls_of (KMeans crafted_centers))) (Some random_scaler_calls)
       8 2 85 ''Flow State''
   \<and> classify_run (Some (kmeans_calls_of (KMeans crafted_centers))) (Some random_scaler_calls)
       8 2 85 ''Balanced State''"
proof
  have "transform_outcome random_scaler_calls (user_input 8 2 85) (Inr [[-3/2, 1, 7/4]])"
    by (simp add: random_scaler_calls_def)
  from looked_up [OF this crafted_predict_flow]
  show "classify_run (Some (kmeans_calls_of (KMeans crafted_centers)))
      (Some random_scaler_calls) 8 2 85 ''Flow State''"
    by (simp add: dict_get_table)
next
  have "transform_outcome random_scaler_calls (user_input 8 2 85) (Inr [[0, 0, 0]])"
    by (simp add: random_scaler_calls_def)
  from looked_up [OF this crafted_predict_balanced]
  show "classify_run (Some (kmeans_calls_of (KMeans crafted_centers)))
      (Some random_scaler_calls) 8 2 85 ''Balanced State''"
    by (simp add: dict_get_table)
qed

theorem classify_deterministic_witness:
  "classify_run (Some (kmeans_calls_of (KMeans crafted_centers)))
       (Some (scaler_calls_of crafted_scaler)) 8 2 85 ''Flow State''
   \<and> {r. classify_run (Some (kmeans_calls_of (KMeans crafted_centers)))
            (Some (scaler_calls_of crafted_scaler)) 8 2 85 r} = {''Flow State''}"
proof -
  have run: "classify_run (Some (kmeans_calls_of (KMeans crafted_centers)))
       (Some (scaler_calls_of crafted_scaler)) 8 2 85 ''Flow State''"
    using classify_run_of_functions [of crafted_state 8 2 85 "''Flow State''"] crafted_flow
    by (simp add: crafted_state_def)
  have one_s: "a = b"
    if "Some (scaler_calls_of crafted_scaler) = Some s" "transform_outcome s X a"
      "transform_outcome s X b" for s X a b
    using that by (auto simp: scaler_calls_of_def)
  have one_m: "a = b"
    if "Some (kmeans_calls_of (KMeans crafted_centers)) = Some m" "predict_outcome m X a"
      "predict_outcome m X b" for m X a b
    using that by (auto simp: kmeans_calls_of_def)
  have "r = ''Flow State''"
    if "classify_run (Some (kmeans_calls_of (KMeans crafted_centers)))
          (Some (scaler_calls_of crafted_scaler)) 8 2 85 r" for r
    by (rule classify_deterministic [OF one_s one_m that run])
  with run show ?thesis by blast
qed

subsection \<open>An index outside the table\<close>

text \<open>
  C8. When the model predicts an index that is not a key of the table, the classifier
  returns "Unknown State".
\<close>

theorem unknown_index_gives_unknown_state:
  assumes "KMEANS_MODEL st = Some m" and "SCALER st = Some s"
    and "transform s (user_input sleep_hours screen_time productivity_score) = Inr scaled_input"
    and "predict m scaled_input = Inr (cluster_index # rest)"
    and "cluster_index \<notin> {0, 1, 2, 3, 4}"
  shows "classify_rhythm_state st sleep_hours screen_time productivity_score
           = Inr ''Unknown State''"
  using assms by (simp add: classify_loaded try_block_def dict_get_table)

lemma six_transform:
  "transform crafted_scaler (user_input 9 2 5) = Inr [[-3/2, 2, -9/4]]"
  by code_simp

lemma six_predict: "predict (KMeans six_centers) [[-3/2, 2, -9/4]] = Inr [5]"
  by code_simp

theorem unknown_index_gives_unknown_state_witness:
  "transform crafted_scaler (user_input 9 2 5) = Inr [[-3/2, 2, -9/4]]
   \<and> predict (KMeans six_centers) [[-3/2, 2, -9/4]] = Inr [5]
   \<and> (5::int) \<notin> {0, 1, 2, 3, 4}
   \<and> classify_rhythm_state
        \<lparr>KMEANS_MODEL = Some (KMeans six_centers), SCALER = Some crafted_scaler\<rparr> 9 2 5
      = Inr ''Unknown State''"
  using unknown_index_gives_unknown_state
    [of "\<lparr>KMEANS_MODEL = Some (KMeans six_centers), SCALER = Some crafted_scaler\<rparr>"
      "KMeans six_centers" crafted_scaler 9 2 5 "[[-3/2, 2, -9/4]]" 5 "[]"]
    six_transform six_predict
  by simp

section \<open>The dashboard\<close>

lemma labels_are_keys: "set (map snd CLUSTER_TO_STATE) \<subseteq> set (map fst RHYTHM_STATES)"
  by (simp add: CLUSTER_TO_STATE_def RHYTHM_STATES_def)

lemma styled_label:
  assumes "r \<in> snd ` set CLUSTER_TO_STATE"
  shows "\<exists>state_info state_color.
           dict_getitem RHYTHM_STATES r = Inr state_info
           \<and> dict_getitem state_info ''color'' = Inr state_color"
proof -
  from assms have "r = ''Burnout State'' \<or> r = ''Flow State'' \<or> r = ''Balanced State''
      \<or> r = ''Fatigue State'' \<or> r = ''Digital Drift State''"
    by (auto simp: set_labels)
  then show ?thesis
    by (elim disjE) (simp_all add: dict_getitem_def RHYTHM_STATES_def)
qed

text \<open>
  C9. Every label of the classifier's table is a key of \<open>RHYTHM_STATES\<close>; whatever the
  classifier returns, the dashboard either stops on its error test or finds the entry of
  the result in \<open>RHYTHM_STATES\<close> and its colour: no KeyError is raised.
\<close>

theorem styling_lookup_defined:
  "set (map snd CLUSTER_TO_STATE) \<subseteq> set (map fst RHYTHM_STATES)
   \<and> (\<exists>state_name. classify_rhythm_state st sleep_hours screen_time productivity_score
          = Inr state_name
        \<and> (if is_error_result state_name
            then analysis_step st sleep_hours screen_time productivity_score
                   = Inr (Stopped state_name)
            else \<exists>state_info state_color.
                   dict_getitem RHYTHM_STATES state_name = Inr state_info
                   \<and> analysis_step st sleep_hours screen_time productivity_score
                       = Inr (Styled state_name state_info state_color)))"
proof
  show "set (map snd CLUSTER_TO_STATE) \<subseteq> set (map fst RHYTHM_STATES)"
    by (rule labels_are_keys)
next
  from classify_result [of st sleep_hours screen_time productivity_score]
  obtain r where r: "classify_rhythm_state st sleep_hours screen_time productivity_score = Inr r"
    and kind: "r \<in> set (map snd CLUSTER_TO_STATE) \<and> \<not> is_error_result r
               \<or> is_error_result r"
    by blast
  show "\<exists>state_name. classify_rhythm_state st sleep_hours screen_time productivity_score
          = Inr state_name
        \<and> (if is_error_result state_name
            then analysis_step st sleep_hours screen_time productivity_score
                   = Inr (Stopped state_name)
            else \<exists>state_info state_color.
                   dict_getitem RHYTHM_STATES state_name = Inr state_info
                   \<and> analysis_step st sleep_hours screen_time productivity_score
                       = Inr (Styled state_name state_info state_color))"
  proof (cases "is_error_result r")
    case True
    then show ?thesis by (simp add: r analysis_step_def)
  next
    case False
    with kind have "r \<in> snd ` set CLUSTER_TO_STATE" by simp
    from styled_label [OF this] obtain state_info state_color
      where "dict_getitem RHYTHM_STATES r = Inr state_info"
        and "dict_getitem state_info ''color'' = Inr state_color"
      by blast
    with False show ?thesis by (simp add: r analysis_step_def)
  qed
qed

text \<open>
  C10. On the results of the classifier the dashboard's error test holds exactly for the
  failure results, and these are exactly the results that are not labels of the table;
  every failure result passes the test and none of the five labels does.
\<close>

theorem error_test_sound_and_complete:
  "(\<exists>state_name. classify_rhythm_state st sleep_hours screen_time productivity_score
          = Inr state_name
        \<and> is_error_result state_name = is_failure_sentinel state_name
        \<and> is_failure_sentinel state_name = (state_name \<notin> set (map snd CLUSTER_TO_STATE)))
   \<and> (is_failure_sentinel r \<longrightarrow> is_error_result r)
   \<and> \<not> is_error_result ''Burnout State''
   \<and> \<not> is_error_result ''Flow State''
   \<and> \<not> is_error_result ''Balanced State''
   \<and> \<not> is_error_result ''Fatigue State''
   \<and> \<not> is_error_result ''Digital Drift State''"
proof (intro conjI)
  from classify_result [of st sleep_hours screen_time productivity_score]
  show "\<exists>state_name. classify_rhythm_state st sleep_hours screen_time productivity_score
          = Inr state_name
        \<and> is_error_result state_name = is_failure_sentinel state_name
        \<and> is_failure_sentinel state_name = (state_name \<notin> set (map snd CLUSTER_TO_STATE))"
    by blast
next
  show "is_failure_sentinel r \<longrightarrow> is_error_result r"
    by (auto simp: is_failure_sentinel_def is_error_result_def startswith_iff)
qed (simp_all add: labels_not_error)

theorem error_test_sound_and_complete_witness:
  "is_failure_sentinel ''Classification Error: X has 2 features''
   \<and> is_error_result ''Classification Error: X has 2 features''
   \<and> classify_rhythm_state crafted_state 8 2 85 = Inr ''Flow State''
   \<and> \<not> is_error_result ''Flow State''"
proof -
  have flow: "classify_rhythm_state crafted_state 8 2 85 = Inr ''Flow State''"
    by code_simp
  have sentinel: "is_failure_sentinel ''Classification Error: X has 2 features''"
    by (simp add: is_failure_sentinel_def)
  from error_test_sound_and_complete
    [of crafted_state 8 2 85 "''Classification Error: X has 2 features''"] flow sentinel
  show ?thesis by (simp add: set_labels)
qed

end
